theory Spec2Isabelle
  imports Main
begin

section \<open>Values exchanged with the outside world\<close>

text \<open>
  The handler of \<^verbatim>\<open>src/index.js\<close> is glue between four remote services. Every awaited
  remote call either throws (the awaited promise rejects) or returns a value, so its
  outcome is a sum: \<open>Inl\<close> carries the error, \<open>Inr\<close> the value. An error is known to
  the program only through its \<^verbatim>\<open>message\<close>.
\<close>

datatype js_error = JsError (message: string)

type_synonym 'a outcome = "js_error + 'a"

text \<open>
  A response stream requested with \<^verbatim>\<open>responseType: 'stream'\<close> emits its data chunks
  and then either \<^verbatim>\<open>end\<close> (no failure) or \<^verbatim>\<open>error\<close>. Streams that never finish
  are outside the model.
\<close>

datatype stream = Stream (chunks: "string list") (failure: "js_error option")

text \<open>
  A file of the Drive listing, with the fields the listing asks for
  (\<^verbatim>\<open>files(id, name, mimeType)\<close>). The fields carry the prefix \<open>file_\<close>, since \<open>id\<close> is the identity
  function of HOL and \<open>mimeType\<close> names a parameter of the helper below.
\<close>

record driveFile =
  file_id :: string
  file_name :: string
  file_mimeType :: string

text \<open>
  The row appended to the log sheet, \<^verbatim>\<open>[new Date().toISOString(), userEmail, prompt]\<close>.
  The time stamp is kept as the instant read from the clock (milliseconds since the
  epoch); the source renders it as ISO 8601 text.
\<close>

record logEntry =
  entry_timestamp :: int
  entry_userEmail :: string
  entry_prompt :: string

text \<open>
  Everything the handler does to the outside world, in program order: lines written to
  the operator's console and calls to remote services. Calls of one request to
  \<^verbatim>\<open>Promise.all\<close> run concurrently; the list gives them file by file, in listing order.
\<close>

datatype effect =
    ConsoleLog string
  | ConsoleError string
  | DriveFilesList string
  | DriveFilesExport string string
  | DriveFilesGet string
  | GenerateContent string
  | UserinfoGet
  | SheetsValuesAppend logEntry
  | SheetsValuesGet
  | GetToken string

text \<open>
  The world one request runs in: what each remote call answers, what the clock reads
  and how the runtime's \<^verbatim>\<open>Date\<close> constructor reads a cell (\<open>None\<close> is an invalid
  date, whose time value is \<^verbatim>\<open>NaN\<close>). A listing's \<^verbatim>\<open>data.files\<close> and the sheet's
  \<^verbatim>\<open>data.values\<close> may be absent (\<open>None\<close>); so may the \<^verbatim>\<open>email\<close> of the identity
  and the \<^verbatim>\<open>access_token\<close> of the token exchange. A sheet row is the list of its
  cells, each a text. \<open>generateContent\<close> stands for the model call together with the
  reading of its text (lines 89-91 and 134-136): \<open>Inl\<close> when any of the three throws.
\<close>

record env =
  drive_files_list :: "string \<Rightarrow> driveFile list option outcome"
  drive_files_export :: "string \<Rightarrow> string \<Rightarrow> stream outcome"
  drive_files_get :: "string \<Rightarrow> stream outcome"
  generateContent :: "string \<Rightarrow> string outcome"
  userinfo_get :: "string option outcome"
  values_append :: "logEntry \<Rightarrow> unit outcome"
  values_get :: "string list list option outcome"
  getToken :: "string \<Rightarrow> string option outcome"
  date_now :: int
  date_parse :: "string \<Rightarrow> int option"

section \<open>Strings\<close>

definition nl :: string where
  "nl = [CHR 0x0A]"

text \<open>\<^verbatim>\<open>s.startsWith(p)\<close>\<close>

definition startsWith :: "string \<Rightarrow> string \<Rightarrow> bool" where
  "startsWith s p = (take (length p) s = p)"

text \<open>\<^verbatim>\<open>xs.join(sep)\<close> on an array of strings\<close>

fun join :: "string \<Rightarrow> string list \<Rightarrow> string" where
  "join sep [] = []"
| "join sep [x] = x"
| "join sep (x # y # ys) = x @ sep @ join sep (y # ys)"

section \<open>The file content extraction helper\<close>

text \<open>
  \<^verbatim>\<open>new Promise((resolve, reject) => ...)\<close> over a stream (lines 15-23 and 28-36):
  \<^verbatim>\<open>buf\<close> starts empty, every chunk is appended, \<^verbatim>\<open>end\<close> writes \<open>okLine\<close> to the
  console and resolves with \<^verbatim>\<open>buf\<close>, \<^verbatim>\<open>error\<close> rejects with the error.
\<close>

definition readStream :: "string \<Rightarrow> stream \<Rightarrow> effect list \<times> string outcome" where
  "readStream okLine s =
     (let buf = foldl (\<lambda>buf chunk. buf @ chunk) [] (chunks s) in
      case failure s of
        None \<Rightarrow> ([ConsoleLog okLine], Inr buf)
      | Some err \<Rightarrow> ([], Inl err))"

definition googleDoc :: string where
  "googleDoc = ''application/vnd.google-apps.document''"

text \<open>
  \<^verbatim>\<open>getDriveFileContent(drive, fileId, mimeType, fileName)\<close>, lines 8-47. The result is
  the promise the caller gets: \<open>Inr\<close> when it resolves, \<open>Inl\<close> when it rejects. The
  promises over the streams are returned without being awaited, so a rejection of
  theirs is not caught by the surrounding \<^verbatim>\<open>try\<close>.
\<close>

definition getDriveFileContent ::
  "env \<Rightarrow> string \<Rightarrow> string \<Rightarrow> string \<Rightarrow> effect list \<times> string outcome" where
  "getDriveFileContent drive fileId mimeType fileName =
     (let attempt = ConsoleLog (''[DEBUG] Attempting to read file: '' @ fileName @
            '' (ID: '' @ fileId @ '', Type: '' @ mimeType @ '')'') in
      if mimeType = googleDoc \<or> startsWith mimeType ''text/'' then
        (let exportMimeType = (if mimeType = googleDoc then ''text/plain'' else mimeType) in
         case drive_files_export drive fileId exportMimeType of
           Inr res \<Rightarrow>
             (let (logs, r) = readStream
                    (''[DEBUG] Successfully read content from: '' @ fileName) res
              in ([attempt, DriveFilesExport fileId exportMimeType] @ logs, r))
         | Inl exportError \<Rightarrow>
             (let tried = [attempt, DriveFilesExport fileId exportMimeType,
                    ConsoleError (''[DEBUG] Export failed for '' @ fileName @ ''. Error: '' @
                      message exportError @ ''. Trying fallback...''),
                    DriveFilesGet fileId] in
              case drive_files_get drive fileId of
                Inr res \<Rightarrow>
                  (let (logs, r) = readStream
                         (''[DEBUG] Successfully read content from '' @ [CHR 0x27] @ fileName @
                          [CHR 0x27] @ '' using fallback.'') res
                   in (tried @ logs, r))
              | Inl fallbackError \<Rightarrow>
                  (tried @ [ConsoleError (''[DEBUG] Fallback failed for '' @ fileName @
                      ''. Error: '' @ message fallbackError @ ''.'')], Inr [])))
      else
        ([attempt, ConsoleLog (''[DEBUG] Skipping unsupported file type: '' @ mimeType @
            '' for file: '' @ fileName)], Inr []))"

section \<open>The request handler\<close>

text \<open>
  The request body, as the interface declares it: every field is a text or absent.
  The handler runs inside the CORS middleware, which is not modelled.
\<close>

record request =
  type :: "string option"
  prompt :: "string option"
  accessToken :: "string option"
  code :: "string option"

datatype body =
    ErrorBody string
  | ResponseBody string
  | ReportBody string
  | AccessTokenBody "string option"

record response =
  status :: nat
  body :: body

text \<open>\<^verbatim>\<open>res.status(n).send(b)\<close>\<close>

definition send :: "nat \<Rightarrow> body \<Rightarrow> response" where
  "send n b = \<lparr>status = n, body = b\<rparr>"

text \<open>\<^verbatim>\<open>!v\<close> for a field: absent and the empty text are falsy.\<close>

definition falsy :: "string option \<Rightarrow> bool" where
  "falsy v = (case v of None \<Rightarrow> True | Some s \<Rightarrow> s = [])"

text \<open>A value inside a template literal; \<^verbatim>\<open>undefined\<close> prints as its name.\<close>

definition str :: "string option \<Rightarrow> string" where
  "str v = (case v of None \<Rightarrow> ''undefined'' | Some s \<Rightarrow> s)"

definition quote :: string where
  "quote = [CHR 0x27]"

subsection \<open>The gemini flow\<close>

definition folderQuery :: string where
  "folderQuery = ''name='' @ quote @ ''PeachTreeFiles'' @ quote @ '' and mimeType='' @ quote @
     ''application/vnd.google-apps.folder'' @ quote @ '' and trashed=false''"

definition childrenQuery :: "string \<Rightarrow> string" where
  "childrenQuery folderId = quote @ folderId @ quote @ '' in parents and trashed=false''"

definition delimiter :: string where
  "delimiter = nl @ nl @ ''---'' @ nl @ nl"

text \<open>\<^verbatim>\<open>.catch(e => '')\<close> on the helper's promise, line 80\<close>

definition catchEmpty :: "string outcome \<Rightarrow> string" where
  "catchEmpty p = (case p of Inl e \<Rightarrow> [] | Inr content \<Rightarrow> content)"

text \<open>
  Lines 79-82: one call of the helper per listed file, each with its own
  \<^verbatim>\<open>catch\<close>; \<^verbatim>\<open>Promise.all\<close> gives the contents in listing order.
\<close>

definition contentPromises :: "env \<Rightarrow> driveFile list \<Rightarrow> (effect list \<times> string) list" where
  "contentPromises drive files =
     map (\<lambda>file.
        let (fx, p) = getDriveFileContent drive (file_id file) (file_mimeType file) (file_name file)
        in (fx, catchEmpty p)) files"

text \<open>Line 83: \<^verbatim>\<open>allContents.filter(c => c).join('\n\n---\n\n')\<close>\<close>

definition joinContents :: "string list \<Rightarrow> string" where
  "joinContents allContents = join delimiter (filter (\<lambda>c. c \<noteq> []) allContents)"

text \<open>Lines 64-85: the folder is looked up, its children listed and read.\<close>

definition gatherContext :: "env \<Rightarrow> effect list \<times> string outcome" where
  "gatherContext drive =
     (case drive_files_list drive folderQuery of
        Inl e \<Rightarrow> ([DriveFilesList folderQuery], Inl e)
      | Inr None \<Rightarrow> ([DriveFilesList folderQuery], Inr [])
      | Inr (Some []) \<Rightarrow> ([DriveFilesList folderQuery], Inr [])
      | Inr (Some (folder # others)) \<Rightarrow>
          (let folderId = file_id folder;
               listed = [DriveFilesList folderQuery, DriveFilesList (childrenQuery folderId)] in
           case drive_files_list drive (childrenQuery folderId) of
             Inl e \<Rightarrow> (listed, Inl e)
           | Inr None \<Rightarrow> (listed, Inr [])
           | Inr (Some []) \<Rightarrow> (listed, Inr [])
           | Inr (Some (file # files)) \<Rightarrow>
               (let allContents = contentPromises drive (file # files) in
                (listed @ concat (map fst allContents),
                 Inr (joinContents (map snd allContents))))))"

definition enhancedPrompt :: "string \<Rightarrow> string \<Rightarrow> string" where
  "enhancedPrompt context question =
     ''Based on the following context, please answer the user'' @ quote @
     ''s question. If the context does not contain the answer, say so.'' @ nl @ nl @
     ''CONTEXT:'' @ nl @ ''---'' @ nl @ context @ nl @ ''---'' @ nl @ nl @
     ''QUESTION: '' @ question"

text \<open>
  Lines 93-103: the log row. Nothing leaves this block but its effects: both the
  identity lookup and the append are inside the \<^verbatim>\<open>try\<close>.
\<close>

definition logQuestion :: "env \<Rightarrow> string \<Rightarrow> effect list" where
  "logQuestion world question =
     (let failed = (\<lambda>logError.
            ConsoleError (''Failed to log question to Google Sheet: '' @ message logError)) in
      case userinfo_get world of
        Inl logError \<Rightarrow> [UserinfoGet, failed logError]
      | Inr email \<Rightarrow>
          (let userEmail = (if falsy email then ''unknown'' else the email);
               logEntry = \<lparr>entry_timestamp = date_now world,
                  entry_userEmail = userEmail, entry_prompt = question\<rparr> in
           case values_append world logEntry of
             Inl logError \<Rightarrow> [UserinfoGet, SheetsValuesAppend logEntry, failed logError]
           | Inr done \<Rightarrow> [UserinfoGet, SheetsValuesAppend logEntry]))"

text \<open>Lines 64-105, after the check of the fields.\<close>

definition gemini :: "env \<Rightarrow> string \<Rightarrow> effect list \<times> response outcome" where
  "gemini world question =
     (case gatherContext world of
        (fx, Inl e) \<Rightarrow> (fx, Inl e)
      | (fx, Inr context) \<Rightarrow>
          (let asked = fx @ [GenerateContent (enhancedPrompt context question)] in
           case generateContent world (enhancedPrompt context question) of
             Inl e \<Rightarrow> (asked, Inl e)
           | Inr answer \<Rightarrow>
               (asked @ logQuestion world question, Inr (send 200 (ResponseBody answer)))))"

subsection \<open>The report flow\<close>

text \<open>\<^verbatim>\<open>row[i]\<close>: \<^verbatim>\<open>undefined\<close> past the end of the row.\<close>

definition cell :: "string list \<Rightarrow> nat \<Rightarrow> string option" where
  "cell row i = (if i < length row then Some (row ! i) else None)"

text \<open>\<^verbatim>\<open>new Date(v)\<close>: an invalid date for \<^verbatim>\<open>undefined\<close>.\<close>

definition newDate :: "env \<Rightarrow> string option \<Rightarrow> int option" where
  "newDate world v = (case v of None \<Rightarrow> None | Some s \<Rightarrow> date_parse world s)"

definition sevenDaysAgo :: "env \<Rightarrow> int" where
  "sevenDaysAgo world = date_now world - 7 * 24 * 60 * 60 * 1000"

text \<open>The filter of lines 122-125; a comparison with \<^verbatim>\<open>NaN\<close> is false.\<close>

definition isRecent :: "env \<Rightarrow> string list \<Rightarrow> bool" where
  "isRecent world row =
     (case newDate world (cell row 0) of
        None \<Rightarrow> False
      | Some timestamp \<Rightarrow> timestamp > sevenDaysAgo world)"

definition bullet :: "string list \<Rightarrow> string" where
  "bullet row = ''- '' @ str (cell row 2)"

definition recentQuestions :: "env \<Rightarrow> string list list \<Rightarrow> string list" where
  "recentQuestions world rows = map bullet (filter (isRecent world) (drop 1 rows))"

definition reportPrompt :: "string \<Rightarrow> string" where
  "reportPrompt questionsText =
     ''As an operations analyst for a Virtual Assistant company, review the following list of questions asked by our VAs over the last week. Generate a brief, professional report for management. The report should identify 2-3 key themes or common areas of confusion, point out potential gaps in our training or documentation, and suggest specific, actionable improvements.'' @
     nl @ nl @ ''Questions Asked This Week:'' @ nl @ questionsText"

definition emptySheet :: string where
  "emptySheet = ''The log sheet is empty or only contains a header. No report to generate.''"

definition noQuestions :: string where
  "noQuestions = ''No questions have been asked in the last 7 days.''"

text \<open>Lines 110-138, after the check of the access token.\<close>

definition report :: "env \<Rightarrow> effect list \<times> response outcome" where
  "report world =
     (case values_get world of
        Inl e \<Rightarrow> ([SheetsValuesGet], Inl e)
      | Inr None \<Rightarrow> ([SheetsValuesGet], Inr (send 200 (ReportBody emptySheet)))
      | Inr (Some rows) \<Rightarrow>
          if length rows \<le> 1 then ([SheetsValuesGet], Inr (send 200 (ReportBody emptySheet)))
          else if length (recentQuestions world rows) = 0
          then ([SheetsValuesGet], Inr (send 200 (ReportBody noQuestions)))
          else
            (let questionsText = join nl (recentQuestions world rows) in
             case generateContent world (reportPrompt questionsText) of
               Inl e \<Rightarrow> ([SheetsValuesGet, GenerateContent (reportPrompt questionsText)], Inl e)
             | Inr reportText \<Rightarrow>
                 ([SheetsValuesGet, GenerateContent (reportPrompt questionsText)],
                  Inr (send 200 (ReportBody reportText)))))"

subsection \<open>The dispatch\<close>

text \<open>
  The body of the \<^verbatim>\<open>try\<close> block, lines 54-148: \<open>Inr\<close> is the response it sends,
  \<open>Inl\<close> the error it throws. Building the OAuth and service clients (lines 54-57, 65,
  96, 110, 142) calls no remote service and is taken not to throw.
\<close>

definition askTry :: "env \<Rightarrow> request \<Rightarrow> effect list \<times> response outcome" where
  "askTry world req =
     (if type req = Some ''gemini'' then
        if falsy (prompt req) \<or> falsy (accessToken req)
        then ([], Inr (send 400 (ErrorBody ''A prompt and access token are required.'')))
        else gemini world (the (prompt req))
      else if type req = Some ''report'' then
        if falsy (accessToken req)
        then ([], Inr (send 400 (ErrorBody ''Access token required.'')))
        else report world
      else if type req = Some ''token'' then
        if falsy (code req)
        then ([], Inr (send 400 (ErrorBody ''A code is required.'')))
        else
          (case getToken world (the (code req)) of
             Inl e \<Rightarrow> ([GetToken (the (code req))], Inl e)
           | Inr access_token \<Rightarrow>
               ([GetToken (the (code req))], Inr (send 200 (AccessTokenBody access_token))))
      else ([], Inr (send 400 (ErrorBody ''A valid request type was not provided.''))))"

definition backendError :: response where
  "backendError = send 500 (ErrorBody ''Something went wrong on the backend.'')"

text \<open>\<^verbatim>\<open>exports.ask\<close>: the \<^verbatim>\<open>try\<close> block and its \<^verbatim>\<open>catch\<close>, lines 149-152.\<close>

definition ask :: "env \<Rightarrow> request \<Rightarrow> effect list \<times> response" where
  "ask world req =
     (case askTry world req of
        (fx, Inr res) \<Rightarrow> (fx, res)
      | (fx, Inl error) \<Rightarrow>
          (fx @ [ConsoleError (''An error occurred: '' @ message error)], backendError))"

section \<open>Observations used by the properties\<close>

text \<open>The remote calls among the effects: everything but the console lines.\<close>

fun isRemoteCall :: "effect \<Rightarrow> bool" where
  "isRemoteCall (ConsoleLog line) = False"
| "isRemoteCall (ConsoleError line) = False"
| "isRemoteCall call = True"

definition remoteCalls :: "effect list \<Rightarrow> effect list" where
  "remoteCalls fx = filter isRemoteCall fx"

text \<open>What a stream gives once it is over: all its chunks in order, or its error.\<close>

definition buffered :: "stream \<Rightarrow> string outcome" where
  "buffered s = (case failure s of None \<Rightarrow> Inr (concat (chunks s)) | Some err \<Rightarrow> Inl err)"

text \<open>The MIME type the helper asks the export for (line 12).\<close>

definition exportType :: "string \<Rightarrow> string" where
  "exportType mimeType = (if mimeType = googleDoc then ''text/plain'' else mimeType)"

text \<open>
  The claim's words for what one file adds to the context: the content of a successful,
  non-empty extraction, and nothing (\<open>None\<close>) for a rejected or an empty one.
\<close>

definition successfulContent :: "env \<Rightarrow> driveFile \<Rightarrow> string option" where
  "successfulContent drive file =
     (case snd (getDriveFileContent drive (file_id file) (file_mimeType file) (file_name file)) of
        Inl e \<Rightarrow> None
      | Inr content \<Rightarrow> if content = [] then None else Some content)"

subsection \<open>A sample world\<close>

text \<open>
  A folder with a plain text file, a PDF and a native document; exports that succeed,
  fail at the call or fail in the stream; a log sheet with a header row, two rows of
  the last week, an old row and a row whose time stamp is no date.
\<close>

definition sampleFiles :: "driveFile list" where
  "sampleFiles =
     [\<lparr>file_id = ''a'', file_name = ''A'', file_mimeType = ''text/plain''\<rparr>,
      \<lparr>file_id = ''b'', file_name = ''B'', file_mimeType = ''application/pdf''\<rparr>,
      \<lparr>file_id = ''c'', file_name = ''C'', file_mimeType = googleDoc\<rparr>]"

definition sampleRows :: "string list list" where
  "sampleRows =
     [[''Timestamp'', ''Email'', ''Question''],
      [''2023-11-14T22:13:19.000Z'', ''va@example.com'', ''How do I invoice?''],
      [''2020-09-13T12:26:40.000Z'', ''va@example.com'', ''Where is the handbook?''],
      [''yesterday-ish'', ''va@example.com'', ''Who approves leave?''],
      [''2023-11-14T22:13:19.000Z'', ''vb@example.com'', ''How do I reset a password?'']]"

definition sampleWorld :: env where
  "sampleWorld =
     \<lparr>drive_files_list = (\<lambda>q.
          if q = folderQuery
          then Inr (Some [\<lparr>file_id = ''folder'', file_name = [], file_mimeType = []\<rparr>])
          else if q = childrenQuery ''folder'' then Inr (Some sampleFiles)
          else Inr None),
      drive_files_export = (\<lambda>fileId mimeType.
          if fileId = ''a'' then Inr (Stream [''x''] None)
          else if fileId = ''c'' then Inr (Stream [''y''] None)
          else if fileId = ''e'' then Inr (Stream [''par''] (Some (JsError ''socket hang up'')))
          else Inl (JsError ''export refused'')),
      drive_files_get = (\<lambda>fileId.
          if fileId = ''d'' then Inr (Stream [''z1'', ''z2''] None)
          else Inl (JsError ''not found'')),
      generateContent = (\<lambda>p. Inr ''answer''),
      userinfo_get = Inr (Some ''va@example.com''),
      values_append = (\<lambda>entry. Inr ()),
      values_get = Inr (Some sampleRows),
      getToken = (\<lambda>c. Inr (Some ''token'')),
      date_now = 1700000000000,
      date_parse = (\<lambda>s.
          if s = ''2023-11-14T22:13:19.000Z'' then Some 1699999999000
          else if s = ''2020-09-13T12:26:40.000Z'' then Some 1600000000000
          else None)\<rparr>"

text \<open>
  A sheet that holds nothing but what the gemini flow appended (lines 97-100 write no
  header): two questions of the last week.
\<close>

definition twoLogged :: "string list list" where
  "twoLogged =
     [[''2023-11-14T22:13:19.000Z'', ''va@example.com'', ''How do I invoice?''],
      [''2023-11-14T22:13:19.000Z'', ''vb@example.com'', ''How do I reset a password?'']]"

definition geminiRequest :: request where
  "geminiRequest = \<lparr>type = Some ''gemini'', prompt = Some ''How do I invoice?'',
     accessToken = Some ''ya29'', code = None\<rparr>"

definition reportRequest :: request where
  "reportRequest = \<lparr>type = Some ''report'', prompt = None,
     accessToken = Some ''ya29'', code = None\<rparr>"

definition tokenRequest :: request where
  "tokenRequest = \<lparr>type = Some ''token'', prompt = None,
     accessToken = None, code = Some ''4/0A''\<rparr>"

definition failed :: "'a outcome" where
  "failed = Inl (JsError ''ECONNRESET'')"

section \<open>Properties of the extraction helper\<close>

lemma foldl_append_concat: "foldl (\<lambda>buf chunk. buf @ chunk) acc xs = acc @ concat xs"
  by (induction xs arbitrary: acc) simp_all

lemma snd_readStream: "snd (readStream okLine s) = buffered s"
  by (simp add: readStream_def buffered_def foldl_append_concat split: option.split)

lemma remoteCalls_readStream: "remoteCalls (fst (readStream okLine s)) = []"
  by (simp add: readStream_def remoteCalls_def split: option.split)

lemma remoteCalls_append: "remoteCalls (xs @ ys) = remoteCalls xs @ remoteCalls ys"
  by (simp add: remoteCalls_def)

lemma helper_unsupported:
  assumes "mimeType \<noteq> googleDoc" "\<not> startsWith mimeType ''text/''"
  shows "remoteCalls (fst (getDriveFileContent drive fileId mimeType fileName)) = []"
    and "snd (getDriveFileContent drive fileId mimeType fileName) = Inr []"
  using assms by (simp_all add: getDriveFileContent_def remoteCalls_def)

lemma helper_export_ok:
  assumes "mimeType = googleDoc \<or> startsWith mimeType ''text/''"
    and "drive_files_export drive fileId (exportType mimeType) = Inr res"
  shows "remoteCalls (fst (getDriveFileContent drive fileId mimeType fileName))
           = [DriveFilesExport fileId (exportType mimeType)]"
    and "snd (getDriveFileContent drive fileId mimeType fileName) = buffered res"
proof -
  obtain logs r where rs: "readStream (''[DEBUG] Successfully read content from: '' @ fileName) res = (logs, r)"
    by (cases "readStream (''[DEBUG] Successfully read content from: '' @ fileName) res")
  from rs have l: "remoteCalls logs = []" and r: "r = buffered res"
    using remoteCalls_readStream[of "''[DEBUG] Successfully read content from: '' @ fileName" res]
      snd_readStream[of "''[DEBUG] Successfully read content from: '' @ fileName" res] by simp_all
  have g: "getDriveFileContent drive fileId mimeType fileName =
      ([ConsoleLog (''[DEBUG] Attempting to read file: '' @ fileName @
            '' (ID: '' @ fileId @ '', Type: '' @ mimeType @ '')''),
        DriveFilesExport fileId (exportType mimeType)] @ logs, r)"
    using assms rs unfolding getDriveFileContent_def exportType_def Let_def by auto
  show "remoteCalls (fst (getDriveFileContent drive fileId mimeType fileName))
           = [DriveFilesExport fileId (exportType mimeType)]"
    unfolding g using l by (simp add: remoteCalls_append) (simp add: remoteCalls_def)
  show "snd (getDriveFileContent drive fileId mimeType fileName) = buffered res"
    unfolding g using r by simp
qed

lemma helper_export_fails:
  assumes "mimeType = googleDoc \<or> startsWith mimeType ''text/''"
    and "drive_files_export drive fileId (exportType mimeType) = Inl exportError"
  shows "remoteCalls (fst (getDriveFileContent drive fileId mimeType fileName))
           = [DriveFilesExport fileId (exportType mimeType), DriveFilesGet fileId]"
    and "snd (getDriveFileContent drive fileId mimeType fileName)
           = (case drive_files_get drive fileId of
                Inl fallbackError \<Rightarrow> Inr [] | Inr res \<Rightarrow> buffered res)"
proof -
  let ?ok = "''[DEBUG] Successfully read content from '' @ [CHR 0x27] @ fileName @
                          [CHR 0x27] @ '' using fallback.''"
  show "remoteCalls (fst (getDriveFileContent drive fileId mimeType fileName))
           = [DriveFilesExport fileId (exportType mimeType), DriveFilesGet fileId]"
  proof (cases "drive_files_get drive fileId")
    case (Inl e)
    then show ?thesis using assms
      unfolding getDriveFileContent_def exportType_def Let_def
      by (auto simp: remoteCalls_def)
  next
    case (Inr res)
    obtain logs r where rs: "readStream ?ok res = (logs, r)" by (cases "readStream ?ok res")
    then have "remoteCalls logs = []" using remoteCalls_readStream[of ?ok res] by simp
    then show ?thesis using assms Inr rs
      unfolding getDriveFileContent_def exportType_def Let_def
      by (auto simp: remoteCalls_append) (simp_all add: remoteCalls_def)
  qed
  show "snd (getDriveFileContent drive fileId mimeType fileName)
           = (case drive_files_get drive fileId of
                Inl fallbackError \<Rightarrow> Inr [] | Inr res \<Rightarrow> buffered res)"
  proof (cases "drive_files_get drive fileId")
    case (Inl e)
    then show ?thesis using assms
      unfolding getDriveFileContent_def exportType_def Let_def by auto
  next
    case (Inr res)
    obtain logs r where rs: "readStream ?ok res = (logs, r)" by (cases "readStream ?ok res")
    then have "r = buffered res" using snd_readStream[of ?ok res] by simp
    then show ?thesis using assms Inr rs
      unfolding getDriveFileContent_def exportType_def Let_def by auto
  qed
qed

lemma snd_contentPromises:
  "map snd (contentPromises drive files) =
     map (\<lambda>file. catchEmpty (snd (getDriveFileContent drive
            (file_id file) (file_mimeType file) (file_name file)))) files"
  by (simp add: contentPromises_def split_def Let_def)

text \<open>
  Claim C4. The helper asks for an export as plain text when the MIME type is the
  native document type, and for an export in the file's own MIME type when that type
  starts with \<^verbatim>\<open>text/\<close>; for every other type it makes no remote call and gives the
  empty string. When the export call of a supported type fails, the only further call
  is the raw download of the same file, and the result is the empty string when that
  call fails too, the downloaded stream otherwise.
\<close>

theorem getDriveFileContent_by_mimeType:
  fixes drive fileId mimeType fileName
  defines "r \<equiv> getDriveFileContent drive fileId mimeType fileName"
  shows
    "(mimeType = googleDoc \<longrightarrow>
        take 1 (remoteCalls (fst r)) = [DriveFilesExport fileId ''text/plain''])
   \<and> (mimeType \<noteq> googleDoc \<and> startsWith mimeType ''text/'' \<longrightarrow>
        take 1 (remoteCalls (fst r)) = [DriveFilesExport fileId mimeType])
   \<and> (mimeType \<noteq> googleDoc \<and> \<not> startsWith mimeType ''text/'' \<longrightarrow>
        remoteCalls (fst r) = [] \<and> snd r = Inr [])
   \<and> (mimeType = googleDoc \<or> startsWith mimeType ''text/'' \<longrightarrow>
        (case drive_files_export drive fileId (exportType mimeType) of
           Inr res \<Rightarrow>
             remoteCalls (fst r) = [DriveFilesExport fileId (exportType mimeType)]
             \<and> snd r = buffered res
         | Inl exportError \<Rightarrow>
             remoteCalls (fst r) =
               [DriveFilesExport fileId (exportType mimeType), DriveFilesGet fileId]
             \<and> snd r = (case drive_files_get drive fileId of
                          Inl fallbackError \<Rightarrow> Inr []
                        | Inr res \<Rightarrow> buffered res)))"
proof -
  have supported: "mimeType = googleDoc \<or> startsWith mimeType ''text/'' \<Longrightarrow>
        (case drive_files_export drive fileId (exportType mimeType) of
           Inr res \<Rightarrow>
             remoteCalls (fst r) = [DriveFilesExport fileId (exportType mimeType)]
             \<and> snd r = buffered res
         | Inl exportError \<Rightarrow>
             remoteCalls (fst r) =
               [DriveFilesExport fileId (exportType mimeType), DriveFilesGet fileId]
             \<and> snd r = (case drive_files_get drive fileId of
                          Inl fallbackError \<Rightarrow> Inr []
                        | Inr res \<Rightarrow> buffered res))"
    unfolding r_def
    by (cases "drive_files_export drive fileId (exportType mimeType)")
       (simp_all add: helper_export_ok helper_export_fails)
  have first: "mimeType = googleDoc \<or> startsWith mimeType ''text/'' \<Longrightarrow>
        take 1 (remoteCalls (fst r)) = [DriveFilesExport fileId (exportType mimeType)]"
    using supported
    by (cases "drive_files_export drive fileId (exportType mimeType)") simp_all
  have unsupported: "mimeType \<noteq> googleDoc \<and> \<not> startsWith mimeType ''text/'' \<Longrightarrow>
        remoteCalls (fst r) = [] \<and> snd r = Inr []"
    unfolding r_def by (simp add: helper_unsupported)
  from first[unfolded exportType_def] supported unsupported show ?thesis
    by (simp split: if_splits)
qed

theorem getDriveFileContent_by_mimeType_witness:
  "remoteCalls (fst (getDriveFileContent sampleWorld ''c'' googleDoc ''C''))
     = [DriveFilesExport ''c'' ''text/plain'']
   \<and> snd (getDriveFileContent sampleWorld ''c'' googleDoc ''C'') = Inr ''y''
   \<and> remoteCalls (fst (getDriveFileContent sampleWorld ''a'' ''text/plain'' ''A''))
     = [DriveFilesExport ''a'' ''text/plain'']
   \<and> remoteCalls (fst (getDriveFileContent sampleWorld ''b'' ''application/pdf'' ''B'')) = []
   \<and> snd (getDriveFileContent sampleWorld ''b'' ''application/pdf'' ''B'') = Inr []
   \<and> remoteCalls (fst (getDriveFileContent sampleWorld ''d'' ''text/csv'' ''D''))
     = [DriveFilesExport ''d'' ''text/csv'', DriveFilesGet ''d'']
   \<and> snd (getDriveFileContent sampleWorld ''d'' ''text/csv'' ''D'') = Inr ''z1z2''
   \<and> remoteCalls (fst (getDriveFileContent sampleWorld ''f'' ''text/csv'' ''F''))
     = [DriveFilesExport ''f'' ''text/csv'', DriveFilesGet ''f'']
   \<and> snd (getDriveFileContent sampleWorld ''f'' ''text/csv'' ''F'') = Inr []"
  using getDriveFileContent_by_mimeType [of googleDoc sampleWorld "''c''" "''C''"]
    getDriveFileContent_by_mimeType [of "''text/plain''" sampleWorld "''a''" "''A''"]
    getDriveFileContent_by_mimeType [of "''application/pdf''" sampleWorld "''b''" "''B''"]
    getDriveFileContent_by_mimeType [of "''text/csv''" sampleWorld "''d''" "''D''"]
    getDriveFileContent_by_mimeType [of "''text/csv''" sampleWorld "''f''" "''F''"]
  by (simp add: sampleWorld_def googleDoc_def startsWith_def exportType_def buffered_def)

text \<open>
  Claim C5 says that the helper never rejects. It does: a stream that emits
  \<^verbatim>\<open>error\<close> rejects the promise the helper has returned (lines 22 and 35), here
  for the export of a plain text file in the sample world.
\<close>

theorem getDriveFileContent_rejects_counterexample:
  "snd (getDriveFileContent sampleWorld ''e'' ''text/plain'' ''E'') = Inl (JsError ''socket hang up'')"
  by (simp add: getDriveFileContent_def sampleWorld_def googleDoc_def startsWith_def
      readStream_def)

text \<open>
  Claim C5, amended. For an unsupported MIME type the helper resolves with the empty
  string. For a supported one it gives what the stream it reads gives: the export
  stream, or the download stream after a failed export call. A stream that ends
  resolves with all its chunks in order, the file's text; a stream that emits
  \<^verbatim>\<open>error\<close> rejects with that error. When both calls fail the helper resolves with
  the empty string. So it rejects exactly on the error event of the stream it reads,
  and the contents the gemini flow awaits (lines 79-82) hold the empty string for
  every rejected file and the resolved text for every other.
\<close>

theorem getDriveFileContent_outcome:
  "snd (getDriveFileContent drive fileId mimeType fileName) =
      (if mimeType = googleDoc \<or> startsWith mimeType ''text/'' then
         (case drive_files_export drive fileId
                 (if mimeType = googleDoc then ''text/plain'' else mimeType) of
            Inr res \<Rightarrow>
              (case failure res of None \<Rightarrow> Inr (concat (chunks res)) | Some err \<Rightarrow> Inl err)
          | Inl exportError \<Rightarrow>
              (case drive_files_get drive fileId of
                 Inr res \<Rightarrow>
                   (case failure res of None \<Rightarrow> Inr (concat (chunks res)) | Some err \<Rightarrow> Inl err)
               | Inl fallbackError \<Rightarrow> Inr []))
       else Inr [])
   \<and> (snd (getDriveFileContent drive fileId mimeType fileName) = Inl err \<longleftrightarrow>
      (mimeType = googleDoc \<or> startsWith mimeType ''text/'') \<and>
      (\<exists>res. failure res = Some err \<and>
         (drive_files_export drive fileId (exportType mimeType) = Inr res \<or>
          (\<exists>exportError. drive_files_export drive fileId (exportType mimeType) = Inl exportError)
          \<and> drive_files_get drive fileId = Inr res)))
   \<and> map snd (contentPromises drive files) =
       map (\<lambda>file.
          case snd (getDriveFileContent drive (file_id file) (file_mimeType file) (file_name file)) of
            Inl rejection \<Rightarrow> []
          | Inr content \<Rightarrow> content) files"
proof -
  let ?r = "getDriveFileContent drive fileId mimeType fileName"
  have val: "snd ?r =
      (if mimeType = googleDoc \<or> startsWith mimeType ''text/'' then
         (case drive_files_export drive fileId
                 (if mimeType = googleDoc then ''text/plain'' else mimeType) of
            Inr res \<Rightarrow>
              (case failure res of None \<Rightarrow> Inr (concat (chunks res)) | Some err \<Rightarrow> Inl err)
          | Inl exportError \<Rightarrow>
              (case drive_files_get drive fileId of
                 Inr res \<Rightarrow>
                   (case failure res of None \<Rightarrow> Inr (concat (chunks res)) | Some err \<Rightarrow> Inl err)
               | Inl fallbackError \<Rightarrow> Inr []))
       else Inr [])"
  proof (cases "mimeType = googleDoc \<or> startsWith mimeType ''text/''")
    case False
    then show ?thesis by (simp add: helper_unsupported)
  next
    case True
    show ?thesis
    proof (cases "drive_files_export drive fileId (exportType mimeType)")
      case (Inr res)
      from helper_export_ok(2) [OF True Inr, of fileName] True Inr show ?thesis
        by (simp add: buffered_def exportType_def)
    next
      case (Inl e)
      from helper_export_fails(2) [OF True Inl, of fileName] True Inl show ?thesis
        by (simp add: buffered_def exportType_def split: sum.split)
    qed
  qed
  have iff: "snd ?r = Inl err \<longleftrightarrow>
      (mimeType = googleDoc \<or> startsWith mimeType ''text/'') \<and>
      (\<exists>res. failure res = Some err \<and>
         (drive_files_export drive fileId (exportType mimeType) = Inr res \<or>
          (\<exists>exportError. drive_files_export drive fileId (exportType mimeType) = Inl exportError)
          \<and> drive_files_get drive fileId = Inr res))"
  proof (cases "mimeType = googleDoc \<or> startsWith mimeType ''text/''")
    case False
    then show ?thesis by (simp add: helper_unsupported)
  next
    case True
    show ?thesis
    proof (cases "drive_files_export drive fileId (exportType mimeType)")
      case (Inr res)
      then show ?thesis using True helper_export_ok(2)[OF True Inr, of fileName]
        by (auto simp: buffered_def split: option.splits)
    next
      case (Inl e)
      then show ?thesis using True helper_export_fails(2)[OF True Inl, of fileName]
        by (auto simp: buffered_def split: option.splits sum.splits)
    qed
  qed
  have awaited: "map snd (contentPromises drive files) =
       map (\<lambda>file.
          case snd (getDriveFileContent drive (file_id file) (file_mimeType file) (file_name file)) of
            Inl rejection \<Rightarrow> []
          | Inr content \<Rightarrow> content) files"
    by (simp add: snd_contentPromises catchEmpty_def)
  show ?thesis by (rule conjI [OF val conjI [OF iff awaited]])
qed

theorem getDriveFileContent_outcome_witness:
  "snd (getDriveFileContent sampleWorld ''e'' ''text/plain'' ''E'') = Inl (JsError ''socket hang up'')
   \<and> snd (getDriveFileContent sampleWorld ''a'' ''text/plain'' ''A'') = Inr ''x''
   \<and> snd (getDriveFileContent sampleWorld ''d'' ''text/csv'' ''D'') = Inr ''z1z2''
   \<and> snd (getDriveFileContent sampleWorld ''f'' ''text/csv'' ''F'') = Inr []
   \<and> snd (getDriveFileContent sampleWorld ''b'' ''application/pdf'' ''B'') = Inr []
   \<and> map snd (contentPromises sampleWorld
        [\<lparr>file_id = ''a'', file_name = ''A'', file_mimeType = ''text/plain''\<rparr>,
         \<lparr>file_id = ''e'', file_name = ''E'', file_mimeType = ''text/plain''\<rparr>,
         \<lparr>file_id = ''d'', file_name = ''D'', file_mimeType = ''text/csv''\<rparr>])
       = [''x'', [], ''z1z2'']"
proof -
  have e: "snd (getDriveFileContent sampleWorld ''e'' ''text/plain'' ''E'')
      = Inl (JsError ''socket hang up'')"
    using getDriveFileContent_outcome [of sampleWorld "''e''" "''text/plain''" "''E''"]
    by (simp add: sampleWorld_def googleDoc_def startsWith_def)
  have a: "snd (getDriveFileContent sampleWorld ''a'' ''text/plain'' ''A'') = Inr ''x''"
    using getDriveFileContent_outcome [of sampleWorld "''a''" "''text/plain''" "''A''"]
    by (simp add: sampleWorld_def googleDoc_def startsWith_def)
  have d: "snd (getDriveFileContent sampleWorld ''d'' ''text/csv'' ''D'') = Inr ''z1z2''"
    using getDriveFileContent_outcome [of sampleWorld "''d''" "''text/csv''" "''D''"]
    by (simp add: sampleWorld_def googleDoc_def startsWith_def)
  have f: "snd (getDriveFileContent sampleWorld ''f'' ''text/csv'' ''F'') = Inr []"
    using getDriveFileContent_outcome [of sampleWorld "''f''" "''text/csv''" "''F''"]
    by (simp add: sampleWorld_def googleDoc_def startsWith_def)
  have b: "snd (getDriveFileContent sampleWorld ''b'' ''application/pdf'' ''B'') = Inr []"
    using getDriveFileContent_outcome [of sampleWorld "''b''" "''application/pdf''" "''B''"]
    by (simp add: googleDoc_def startsWith_def)
  have c: "map snd (contentPromises sampleWorld
        [\<lparr>file_id = ''a'', file_name = ''A'', file_mimeType = ''text/plain''\<rparr>,
         \<lparr>file_id = ''e'', file_name = ''E'', file_mimeType = ''text/plain''\<rparr>,
         \<lparr>file_id = ''d'', file_name = ''D'', file_mimeType = ''text/csv''\<rparr>])
       = [''x'', [], ''z1z2'']"
    using getDriveFileContent_outcome [where drive = sampleWorld and files =
        "[\<lparr>file_id = ''a'', file_name = ''A'', file_mimeType = ''text/plain''\<rparr>,
          \<lparr>file_id = ''e'', file_name = ''E'', file_mimeType = ''text/plain''\<rparr>,
          \<lparr>file_id = ''d'', file_name = ''D'', file_mimeType = ''text/csv''\<rparr>]"] e a d
    by simp
  from e a d f b c show ?thesis by blast
qed

section \<open>Properties of the dispatch\<close>

lemma falsy_None: "falsy None" by (simp add: falsy_def)
lemma falsy_empty: "falsy (Some [])" by (simp add: falsy_def)

lemma askTry_gemini_missing:
  "type req = Some ''gemini'' \<Longrightarrow> falsy (prompt req) \<or> falsy (accessToken req) \<Longrightarrow>
     askTry world req = ([], Inr (send 400 (ErrorBody ''A prompt and access token are required.'')))"
  by (simp add: askTry_def)

lemma askTry_report_missing:
  "type req = Some ''report'' \<Longrightarrow> falsy (accessToken req) \<Longrightarrow>
     askTry world req = ([], Inr (send 400 (ErrorBody ''Access token required.'')))"
  by (simp add: askTry_def)

lemma askTry_token_missing:
  "type req = Some ''token'' \<Longrightarrow> falsy (code req) \<Longrightarrow>
     askTry world req = ([], Inr (send 400 (ErrorBody ''A code is required.'')))"
  by (simp add: askTry_def)

lemma askTry_bad_type:
  "type req \<noteq> Some ''gemini'' \<Longrightarrow> type req \<noteq> Some ''report'' \<Longrightarrow> type req \<noteq> Some ''token'' \<Longrightarrow>
     askTry world req = ([], Inr (send 400 (ErrorBody ''A valid request type was not provided.'')))"
  by (simp add: askTry_def)

lemma ask_of_response: "askTry world req = (fx, Inr res) \<Longrightarrow> ask world req = (fx, res)"
  by (simp add: ask_def)

lemma ask_of_error:
  "askTry world req = (fx, Inl e) \<Longrightarrow>
     ask world req = (fx @ [ConsoleError (''An error occurred: '' @ message e)], backendError)"
  by (simp add: ask_def)

text \<open>
  Claim C2. A gemini request without \<^verbatim>\<open>prompt\<close> or without \<^verbatim>\<open>accessToken\<close>, a
  report request without \<^verbatim>\<open>accessToken\<close>, a token request without \<^verbatim>\<open>code\<close>, and
  a request whose \<^verbatim>\<open>type\<close> is absent or none of the three known values are answered
  with status 400, before any remote call.
\<close>

theorem ask_missing_field_400:
  "(type req = Some ''gemini'' \<and> (prompt req = None \<or> accessToken req = None) \<longrightarrow>
      fst (ask world req) = [] \<and> status (snd (ask world req)) = 400)
   \<and> (type req = Some ''report'' \<and> accessToken req = None \<longrightarrow>
      fst (ask world req) = [] \<and> status (snd (ask world req)) = 400)
   \<and> (type req = Some ''token'' \<and> code req = None \<longrightarrow>
      fst (ask world req) = [] \<and> status (snd (ask world req)) = 400)
   \<and> (type req = None \<or>
       (type req \<noteq> Some ''gemini'' \<and> type req \<noteq> Some ''report'' \<and> type req \<noteq> Some ''token'') \<longrightarrow>
      fst (ask world req) = [] \<and> status (snd (ask world req)) = 400)"
proof -
  have g: "type req = Some ''gemini'' \<and> (prompt req = None \<or> accessToken req = None) \<longrightarrow>
      fst (ask world req) = [] \<and> status (snd (ask world req)) = 400"
    using ask_of_response [OF askTry_gemini_missing, of req world] falsy_None
    by (auto simp: send_def)
  have r: "type req = Some ''report'' \<and> accessToken req = None \<longrightarrow>
      fst (ask world req) = [] \<and> status (snd (ask world req)) = 400"
    using ask_of_response [OF askTry_report_missing, of req world] falsy_None
    by (auto simp: send_def)
  have t: "type req = Some ''token'' \<and> code req = None \<longrightarrow>
      fst (ask world req) = [] \<and> status (snd (ask world req)) = 400"
    using ask_of_response [OF askTry_token_missing, of req world] falsy_None
    by (auto simp: send_def)
  have b: "type req = None \<or>
       (type req \<noteq> Some ''gemini'' \<and> type req \<noteq> Some ''report'' \<and> type req \<noteq> Some ''token'') \<longrightarrow>
      fst (ask world req) = [] \<and> status (snd (ask world req)) = 400"
    using ask_of_response [OF askTry_bad_type, of req world]
    by (auto simp: send_def)
  show ?thesis by (rule conjI [OF g conjI [OF r conjI [OF t b]]])
qed

theorem ask_missing_field_400_witness:
  "status (snd (ask sampleWorld
      \<lparr>type = Some ''gemini'', prompt = None, accessToken = Some ''ya29'', code = None\<rparr>)) = 400
   \<and> status (snd (ask sampleWorld
      \<lparr>type = Some ''gemini'', prompt = Some ''How do I invoice?'', accessToken = None, code = None\<rparr>)) = 400
   \<and> status (snd (ask sampleWorld
      \<lparr>type = Some ''report'', prompt = None, accessToken = None, code = None\<rparr>)) = 400
   \<and> status (snd (ask sampleWorld
      \<lparr>type = Some ''token'', prompt = None, accessToken = None, code = None\<rparr>)) = 400
   \<and> status (snd (ask sampleWorld
      \<lparr>type = None, prompt = Some ''How do I invoice?'', accessToken = Some ''ya29'', code = Some ''4/0A''\<rparr>)) = 400
   \<and> status (snd (ask sampleWorld
      \<lparr>type = Some ''Gemini'', prompt = Some ''How do I invoice?'', accessToken = Some ''ya29'', code = Some ''4/0A''\<rparr>)) = 400"
  using ask_missing_field_400 [of "\<lparr>type = Some ''gemini'', prompt = None, accessToken = Some ''ya29'', code = None\<rparr>" sampleWorld]
    ask_missing_field_400 [of "\<lparr>type = Some ''gemini'', prompt = Some ''How do I invoice?'', accessToken = None, code = None\<rparr>" sampleWorld]
    ask_missing_field_400 [of "\<lparr>type = Some ''report'', prompt = None, accessToken = None, code = None\<rparr>" sampleWorld]
    ask_missing_field_400 [of "\<lparr>type = Some ''token'', prompt = None, accessToken = None, code = None\<rparr>" sampleWorld]
    ask_missing_field_400 [of "\<lparr>type = None, prompt = Some ''How do I invoice?'', accessToken = Some ''ya29'', code = Some ''4/0A''\<rparr>" sampleWorld]
    ask_missing_field_400 [of "\<lparr>type = Some ''Gemini'', prompt = Some ''How do I invoice?'', accessToken = Some ''ya29'', code = Some ''4/0A''\<rparr>" sampleWorld]
  by simp

text \<open>
  Claim C10. A required field that is present but is the empty text counts as
  missing: the request is answered with status 400, before any remote call.
\<close>

theorem ask_empty_field_400:
  "(type req = Some ''gemini'' \<and> (prompt req = Some [] \<or> accessToken req = Some []) \<longrightarrow>
      fst (ask world req) = [] \<and> status (snd (ask world req)) = 400)
   \<and> (type req = Some ''report'' \<and> accessToken req = Some [] \<longrightarrow>
      fst (ask world req) = [] \<and> status (snd (ask world req)) = 400)
   \<and> (type req = Some ''token'' \<and> code req = Some [] \<longrightarrow>
      fst (ask world req) = [] \<and> status (snd (ask world req)) = 400)"
proof -
  have g: "type req = Some ''gemini'' \<and> (prompt req = Some [] \<or> accessToken req = Some []) \<longrightarrow>
      fst (ask world req) = [] \<and> status (snd (ask world req)) = 400"
    using ask_of_response [OF askTry_gemini_missing, of req world] falsy_empty
    by (auto simp: send_def)
  have r: "type req = Some ''report'' \<and> accessToken req = Some [] \<longrightarrow>
      fst (ask world req) = [] \<and> status (snd (ask world req)) = 400"
    using ask_of_response [OF askTry_report_missing, of req world] falsy_empty
    by (auto simp: send_def)
  have t: "type req = Some ''token'' \<and> code req = Some [] \<longrightarrow>
      fst (ask world req) = [] \<and> status (snd (ask world req)) = 400"
    using ask_of_response [OF askTry_token_missing, of req world] falsy_empty
    by (auto simp: send_def)
  show ?thesis by (rule conjI [OF g conjI [OF r t]])
qed

theorem ask_empty_field_400_witness:
  "status (snd (ask sampleWorld
      \<lparr>type = Some ''gemini'', prompt = Some [], accessToken = Some ''ya29'', code = None\<rparr>)) = 400
   \<and> status (snd (ask sampleWorld
      \<lparr>type = Some ''gemini'', prompt = Some ''How do I invoice?'', accessToken = Some [], code = None\<rparr>)) = 400
   \<and> status (snd (ask sampleWorld
      \<lparr>type = Some ''report'', prompt = None, accessToken = Some [], code = None\<rparr>)) = 400
   \<and> status (snd (ask sampleWorld
      \<lparr>type = Some ''token'', prompt = None, accessToken = None, code = Some []\<rparr>)) = 400"
  using ask_empty_field_400 [of "\<lparr>type = Some ''gemini'', prompt = Some [], accessToken = Some ''ya29'', code = None\<rparr>" sampleWorld]
    ask_empty_field_400 [of "\<lparr>type = Some ''gemini'', prompt = Some ''How do I invoice?'', accessToken = Some [], code = None\<rparr>" sampleWorld]
    ask_empty_field_400 [of "\<lparr>type = Some ''report'', prompt = None, accessToken = Some [], code = None\<rparr>" sampleWorld]
    ask_empty_field_400 [of "\<lparr>type = Some ''token'', prompt = None, accessToken = None, code = Some []\<rparr>" sampleWorld]
  by simp

section \<open>Facts about the flows\<close>

lemma askTry_report:
  "type req = Some ''report'' \<Longrightarrow> \<not> falsy (accessToken req) \<Longrightarrow> askTry world req = report world"
  by (simp add: askTry_def)

lemma askTry_gemini:
  "type req = Some ''gemini'' \<Longrightarrow> \<not> falsy (prompt req) \<Longrightarrow> \<not> falsy (accessToken req) \<Longrightarrow>
     askTry world req = gemini world (the (prompt req))"
  by (simp add: askTry_def)

lemma recentQuestions_short: "length rows \<le> 1 \<Longrightarrow> recentQuestions world rows = []"
  by (simp add: recentQuestions_def)

lemma recentQuestions_Cons:
  "recentQuestions world (first # rest) = map bullet (filter (isRecent world) rest)"
  by (simp add: recentQuestions_def)

lemma report_absent:
  "values_get world = Inr None \<Longrightarrow>
     report world = ([SheetsValuesGet], Inr (send 200 (ReportBody emptySheet)))"
  by (simp add: report_def)

lemma report_short:
  "values_get world = Inr (Some rows) \<Longrightarrow> length rows \<le> 1 \<Longrightarrow>
     report world = ([SheetsValuesGet], Inr (send 200 (ReportBody emptySheet)))"
  by (simp add: report_def)

lemma report_none_recent:
  "values_get world = Inr (Some rows) \<Longrightarrow> 1 < length rows \<Longrightarrow> recentQuestions world rows = [] \<Longrightarrow>
     report world = ([SheetsValuesGet], Inr (send 200 (ReportBody noQuestions)))"
  by (simp add: report_def)

lemma report_some_recent:
  assumes "values_get world = Inr (Some rows)" "recentQuestions world rows \<noteq> []"
  shows "report world =
     ([SheetsValuesGet, GenerateContent (reportPrompt (join nl (recentQuestions world rows)))],
      case generateContent world (reportPrompt (join nl (recentQuestions world rows))) of
        Inl e \<Rightarrow> Inl e
      | Inr reportText \<Rightarrow> Inr (send 200 (ReportBody reportText)))"
proof -
  have "1 < length rows" using assms(2) recentQuestions_short [of rows world] by force
  then show ?thesis using assms
    by (simp add: report_def Let_def split: sum.split)
qed

lemma drop1_nth: "drop 1 xs = map (\<lambda>i. xs ! i) [1..<length xs]"
proof -
  have "drop 1 xs = drop 1 (map (\<lambda>i. xs ! i) [0..<length xs])" by (simp add: map_nth)
  also have "\<dots> = map (\<lambda>i. xs ! i) (drop 1 [0..<length xs])" by (simp only: drop_map)
  also have "drop 1 [0..<length xs] = [1..<length xs]" by (simp only: drop_upt) simp
  finally show ?thesis .
qed

lemma getDriveFileContent_same:
  assumes "drive_files_export w = drive_files_export w'" "drive_files_get w = drive_files_get w'"
  shows "getDriveFileContent w fileId mimeType fileName = getDriveFileContent w' fileId mimeType fileName"
  unfolding getDriveFileContent_def assms ..

lemma gatherContext_same:
  assumes l: "drive_files_list w = drive_files_list w'"
    and e: "drive_files_export w = drive_files_export w'"
    and g: "drive_files_get w = drive_files_get w'"
  shows "gatherContext w = gatherContext w'"
proof -
  have c: "contentPromises w files = contentPromises w' files" for files
    unfolding contentPromises_def getDriveFileContent_same [OF e g] ..
  show ?thesis unfolding gatherContext_def l c ..
qed

lemma snd_gemini:
  "snd (gemini w question) =
     (case snd (gatherContext w) of
        Inl e \<Rightarrow> Inl e
      | Inr context \<Rightarrow>
          (case generateContent w (enhancedPrompt context question) of
             Inl e \<Rightarrow> Inl e
           | Inr answer \<Rightarrow> Inr (send 200 (ResponseBody answer))))"
  by (simp add: gemini_def Let_def split: prod.split sum.split)

lemma snd_ask:
  "snd (ask w req) = (case snd (askTry w req) of Inl e \<Rightarrow> backendError | Inr res \<Rightarrow> res)"
  by (simp add: ask_def split: prod.split sum.split)

lemma snd_gatherContext_Inl:
  "snd (gatherContext w) = Inl e \<longleftrightarrow>
     drive_files_list w folderQuery = Inl e
     \<or> (\<exists>folder others. drive_files_list w folderQuery = Inr (Some (folder # others))
           \<and> drive_files_list w (childrenQuery (file_id folder)) = Inl e)"
  by (auto simp: gatherContext_def Let_def split: sum.splits option.splits list.splits)

lemma snd_gemini_Inl:
  "snd (gemini w question) = Inl e \<longleftrightarrow>
     snd (gatherContext w) = Inl e
     \<or> (\<exists>context. snd (gatherContext w) = Inr context
           \<and> generateContent w (enhancedPrompt context question) = Inl e)"
  by (auto simp: snd_gemini split: sum.splits)

lemma snd_report_Inl:
  "snd (report w) = Inl e \<longleftrightarrow>
     values_get w = Inl e
     \<or> (\<exists>rows. values_get w = Inr (Some rows) \<and> recentQuestions w rows \<noteq> []
           \<and> generateContent w (reportPrompt (join nl (recentQuestions w rows))) = Inl e)"
proof (cases "values_get w")
  case (Inl e')
  then show ?thesis by (simp add: report_def)
next
  case (Inr v)
  show ?thesis
  proof (cases v)
    case None
    then show ?thesis using Inr by (simp add: report_def send_def)
  next
    case (Some rows)
    show ?thesis
    proof (cases "recentQuestions w rows = []")
      case True
      then show ?thesis using Inr Some by (simp add: report_def)
    next
      case False
      have "values_get w = Inr (Some rows)" using Inr Some by simp
      from report_some_recent [OF this False] show ?thesis
        using Inr Some False by (simp split: sum.splits)
    qed
  qed
qed

lemma snd_gemini_status:
  "snd (gemini w question) = Inr res \<Longrightarrow> status res = 200"
  by (auto simp: snd_gemini send_def split: sum.splits)

lemma snd_report_status:
  "snd (report w) = Inr res \<Longrightarrow> status res = 200"
  by (auto simp: report_def send_def Let_def split: sum.splits option.splits if_splits)

lemma snd_askTry_status:
  "snd (askTry w req) = Inr res \<Longrightarrow> status res = 200 \<or> status res = 400"
  unfolding askTry_def
  by (auto simp: send_def split: if_splits sum.splits dest: snd_gemini_status snd_report_status)

lemma report_same:
  assumes "values_get w = values_get w'" "generateContent w = generateContent w'"
    and "date_now w = date_now w'" "date_parse w = date_parse w'"
  shows "report w = report w'"
proof -
  have i: "isRecent w = isRecent w'"
    by (simp add: fun_eq_iff isRecent_def newDate_def sevenDaysAgo_def assms split: option.split)
  show ?thesis
    unfolding report_def recentQuestions_def assms i ..
qed

lemma askTry_token:
  "type req = Some ''token'' \<Longrightarrow> \<not> falsy (code req) \<Longrightarrow>
     snd (askTry world req) =
       (case getToken world (the (code req)) of
          Inl e \<Rightarrow> Inl e
        | Inr access_token \<Rightarrow> Inr (send 200 (AccessTokenBody access_token)))"
  by (simp add: askTry_def split: sum.split)

section \<open>Properties of the report flow\<close>

text \<open>
  Claim C7. A report request with an access token whose sheet read gives no rows, or
  no more than one row, is answered 200 with the fixed message that the log sheet is
  empty; one whose sheet has more rows but none recent is answered 200 with the fixed
  message that no questions were asked. In both cases the sheet read is the only
  effect: the model is not called.
\<close>

theorem report_empty_cases:
  assumes "type req = Some ''report''" and "\<not> falsy (accessToken req)"
  shows
    "(values_get world = Inr None \<or> (\<exists>rows. values_get world = Inr (Some rows) \<and> length rows \<le> 1)
        \<longrightarrow> ask world req = ([SheetsValuesGet], \<lparr>status = 200, body = ReportBody
              ''The log sheet is empty or only contains a header. No report to generate.''\<rparr>))
   \<and> (\<forall>rows. values_get world = Inr (Some rows) \<and> 1 < length rows
          \<and> recentQuestions world rows = []
        \<longrightarrow> ask world req = ([SheetsValuesGet], \<lparr>status = 200, body = ReportBody
              ''No questions have been asked in the last 7 days.''\<rparr>))"
proof -
  have a: "askTry world req = report world" using assms by (rule askTry_report)
  have e: "values_get world = Inr None \<or> (\<exists>rows. values_get world = Inr (Some rows) \<and> length rows \<le> 1)
        \<longrightarrow> ask world req = ([SheetsValuesGet], \<lparr>status = 200, body = ReportBody
              ''The log sheet is empty or only contains a header. No report to generate.''\<rparr>)"
    using report_absent [of world] report_short [of world]
    by (auto simp: ask_def a send_def emptySheet_def)
  have n: "\<forall>rows. values_get world = Inr (Some rows) \<and> 1 < length rows
          \<and> recentQuestions world rows = []
        \<longrightarrow> ask world req = ([SheetsValuesGet], \<lparr>status = 200, body = ReportBody
              ''No questions have been asked in the last 7 days.''\<rparr>)"
    using report_none_recent [of world]
    by (auto simp: ask_def a send_def noQuestions_def)
  show ?thesis by (rule conjI [OF e n])
qed

theorem report_empty_cases_witness:
  "type reportRequest = Some ''report'' \<and> \<not> falsy (accessToken reportRequest)
   \<and> ask (sampleWorld\<lparr>values_get := Inr None\<rparr>) reportRequest
       = ([SheetsValuesGet], \<lparr>status = 200, body = ReportBody
              ''The log sheet is empty or only contains a header. No report to generate.''\<rparr>)
   \<and> ask (sampleWorld\<lparr>values_get := Inr (Some [[''Timestamp'', ''Email'', ''Question'']])\<rparr>)
         reportRequest
       = ([SheetsValuesGet], \<lparr>status = 200, body = ReportBody
              ''The log sheet is empty or only contains a header. No report to generate.''\<rparr>)
   \<and> ask (sampleWorld\<lparr>values_get := Inr (Some [[''Timestamp'', ''Email'', ''Question''],
            [''2020-09-13T12:26:40.000Z'', ''va@example.com'', ''Where is the handbook?'']])\<rparr>)
         reportRequest
       = ([SheetsValuesGet], \<lparr>status = 200, body = ReportBody
              ''No questions have been asked in the last 7 days.''\<rparr>)"
  using report_empty_cases [of reportRequest "sampleWorld\<lparr>values_get := Inr None\<rparr>"]
    report_empty_cases [of reportRequest
      "sampleWorld\<lparr>values_get := Inr (Some [[''Timestamp'', ''Email'', ''Question'']])\<rparr>"]
    report_empty_cases [of reportRequest
      "sampleWorld\<lparr>values_get := Inr (Some [[''Timestamp'', ''Email'', ''Question''],
            [''2020-09-13T12:26:40.000Z'', ''va@example.com'', ''Where is the handbook?'']])\<rparr>"]
  by (simp add: reportRequest_def falsy_def sampleWorld_def recentQuestions_def isRecent_def
      newDate_def cell_def sevenDaysAgo_def)

text \<open>
  Claim C3 says that every logged row is among the recent questions exactly when its
  time stamp is within the last seven days. The first row of the sheet is not: in a
  sheet of two logged rows of the last week, the first row's time stamp reads as a
  date after now minus seven days, yet only the second row gives a bullet, and the
  model is asked about that one alone.
\<close>

theorem recentQuestions_first_row_counterexample:
  "cell (twoLogged ! 0) 0 = Some ''2023-11-14T22:13:19.000Z''
   \<and> date_parse sampleWorld ''2023-11-14T22:13:19.000Z'' = Some 1699999999000
   \<and> date_now sampleWorld - 604800000 < 1699999999000
   \<and> isRecent sampleWorld (twoLogged ! 0)
   \<and> recentQuestions sampleWorld twoLogged = [''- How do I reset a password?'']
   \<and> remoteCalls (fst (ask (sampleWorld\<lparr>values_get := Inr (Some twoLogged)\<rparr>) reportRequest))
       = [SheetsValuesGet, GenerateContent (reportPrompt ''- How do I reset a password?'')]"
proof -
  have c: "cell (twoLogged ! 0) 0 = Some ''2023-11-14T22:13:19.000Z''"
    by (simp add: twoLogged_def cell_def)
  have p: "date_parse sampleWorld ''2023-11-14T22:13:19.000Z'' = Some 1699999999000"
    by (simp add: sampleWorld_def)
  have n: "date_now sampleWorld - 604800000 < 1699999999000"
    by (simp add: sampleWorld_def)
  have i: "isRecent sampleWorld (twoLogged ! 0)"
    using c p n by (simp add: isRecent_def newDate_def sevenDaysAgo_def)
  have i1: "isRecent sampleWorld (twoLogged ! 1)"
    using p n by (simp add: isRecent_def newDate_def sevenDaysAgo_def twoLogged_def cell_def)
  have q: "recentQuestions sampleWorld twoLogged = [''- How do I reset a password?'']"
    using i1 by (simp add: recentQuestions_def twoLogged_def bullet_def cell_def str_def)
  have same: "isRecent (sampleWorld\<lparr>values_get := Inr (Some twoLogged)\<rparr>) = isRecent sampleWorld"
    by (simp add: fun_eq_iff isRecent_def newDate_def sevenDaysAgo_def split: option.split)
  have w: "recentQuestions (sampleWorld\<lparr>values_get := Inr (Some twoLogged)\<rparr>) twoLogged
      = recentQuestions sampleWorld twoLogged"
    by (simp add: recentQuestions_def same)
  have t: "askTry (sampleWorld\<lparr>values_get := Inr (Some twoLogged)\<rparr>) reportRequest
      = report (sampleWorld\<lparr>values_get := Inr (Some twoLogged)\<rparr>)"
    by (rule askTry_report) (simp_all add: reportRequest_def falsy_def)
  have v: "values_get (sampleWorld\<lparr>values_get := Inr (Some twoLogged)\<rparr>) = Inr (Some twoLogged)"
    by simp
  have r: "remoteCalls (fst (ask (sampleWorld\<lparr>values_get := Inr (Some twoLogged)\<rparr>) reportRequest))
       = [SheetsValuesGet, GenerateContent (reportPrompt ''- How do I reset a password?'')]"
    unfolding ask_def t
    using report_some_recent [OF v] w q
    by (simp add: remoteCalls_def split: sum.split)
  from c p n i q r show ?thesis by blast
qed

text \<open>
  Claim C3, amended. The first row of the sheet is never among the recent questions.
  The recent questions are the bullets of exactly those rows after the first whose
  first cell reads as a date strictly after now minus seven days (604800000 ms), in
  the order of the sheet; a row whose first cell is missing or is no date is left out.
  Each bullet is \<^verbatim>\<open>- \<close> followed by the row's third cell. When there is at least
  one, the model is called once, with the fixed instruction followed by these bullets,
  one per line.
\<close>

theorem recentQuestions_window:
  "recentQuestions world rows =
      map (\<lambda>i. ''- '' @ str (cell (rows ! i) 2))
        (filter (\<lambda>i. case cell (rows ! i) 0 of
                       None \<Rightarrow> False
                     | Some v \<Rightarrow> (case date_parse world v of
                                    None \<Rightarrow> False
                                  | Some t \<Rightarrow> date_now world - 604800000 < t))
           [1..<length rows])
   \<and> (type req = Some ''report'' \<and> \<not> falsy (accessToken req)
        \<and> values_get world = Inr (Some rows) \<and> recentQuestions world rows \<noteq> [] \<longrightarrow>
      remoteCalls (fst (ask world req)) =
        [SheetsValuesGet, GenerateContent
          (''As an operations analyst for a Virtual Assistant company, review the following list of questions asked by our VAs over the last week. Generate a brief, professional report for management. The report should identify 2-3 key themes or common areas of confusion, point out potential gaps in our training or documentation, and suggest specific, actionable improvements.''
           @ nl @ nl @ ''Questions Asked This Week:'' @ nl @ join nl (recentQuestions world rows))])"
proof -
  have recent: "isRecent world row \<longleftrightarrow>
      (case cell row 0 of None \<Rightarrow> False
       | Some v \<Rightarrow> (case date_parse world v of
                      None \<Rightarrow> False
                    | Some t \<Rightarrow> date_now world - 604800000 < t))" for row
    by (simp add: isRecent_def newDate_def sevenDaysAgo_def split: option.split)
  have w: "recentQuestions world rows =
      map (\<lambda>i. ''- '' @ str (cell (rows ! i) 2))
        (filter (\<lambda>i. case cell (rows ! i) 0 of
                       None \<Rightarrow> False
                     | Some v \<Rightarrow> (case date_parse world v of
                                    None \<Rightarrow> False
                                  | Some t \<Rightarrow> date_now world - 604800000 < t))
           [1..<length rows])"
    unfolding recentQuestions_def drop1_nth [of rows] filter_map
    by (simp add: comp_def recent bullet_def)
  have p: "type req = Some ''report'' \<and> \<not> falsy (accessToken req)
        \<and> values_get world = Inr (Some rows) \<and> recentQuestions world rows \<noteq> [] \<longrightarrow>
      remoteCalls (fst (ask world req)) =
        [SheetsValuesGet, GenerateContent
          (''As an operations analyst for a Virtual Assistant company, review the following list of questions asked by our VAs over the last week. Generate a brief, professional report for management. The report should identify 2-3 key themes or common areas of confusion, point out potential gaps in our training or documentation, and suggest specific, actionable improvements.''
           @ nl @ nl @ ''Questions Asked This Week:'' @ nl @ join nl (recentQuestions world rows))]"
  proof (intro impI, elim conjE)
    assume t: "type req = Some ''report''" and a: "\<not> falsy (accessToken req)"
      and v: "values_get world = Inr (Some rows)" and q: "recentQuestions world rows \<noteq> []"
    show "remoteCalls (fst (ask world req)) =
        [SheetsValuesGet, GenerateContent
          (''As an operations analyst for a Virtual Assistant company, review the following list of questions asked by our VAs over the last week. Generate a brief, professional report for management. The report should identify 2-3 key themes or common areas of confusion, point out potential gaps in our training or documentation, and suggest specific, actionable improvements.''
           @ nl @ nl @ ''Questions Asked This Week:'' @ nl @ join nl (recentQuestions world rows))]"
      unfolding ask_def askTry_report [OF t a] report_some_recent [OF v q]
      by (simp add: remoteCalls_def reportPrompt_def split: sum.split)
  qed
  show ?thesis by (rule conjI [OF w p])
qed

theorem recentQuestions_window_witness:
  "type reportRequest = Some ''report'' \<and> \<not> falsy (accessToken reportRequest)
   \<and> values_get sampleWorld = Inr (Some sampleRows)
   \<and> recentQuestions sampleWorld sampleRows
       = [''- How do I invoice?'', ''- How do I reset a password?'']
   \<and> remoteCalls (fst (ask sampleWorld reportRequest)) =
        [SheetsValuesGet, GenerateContent
          (''As an operations analyst for a Virtual Assistant company, review the following list of questions asked by our VAs over the last week. Generate a brief, professional report for management. The report should identify 2-3 key themes or common areas of confusion, point out potential gaps in our training or documentation, and suggest specific, actionable improvements.''
           @ nl @ nl @ ''Questions Asked This Week:'' @ nl
           @ ''- How do I invoice?'' @ nl @ ''- How do I reset a password?'')]"
proof -
  have q: "recentQuestions sampleWorld sampleRows
       = [''- How do I invoice?'', ''- How do I reset a password?'']"
    using recentQuestions_window [of sampleWorld sampleRows reportRequest]
    by (simp add: sampleWorld_def sampleRows_def cell_def str_def)
  show ?thesis
    using recentQuestions_window [of sampleWorld sampleRows reportRequest] q
    by (simp add: reportRequest_def falsy_def) (simp add: sampleWorld_def)
qed

text \<open>
  Claim C9. The first row of the sheet never reaches the recent questions, whatever
  it holds: they are computed from the rows after it, and replacing the first row by
  any other leaves the handler's effects and response as they are.
\<close>

theorem header_row_skipped:
  "recentQuestions world (first # rest) = map bullet (filter (isRecent world) rest)
   \<and> ask (world\<lparr>values_get := Inr (Some (first # rest))\<rparr>) req
       = ask (world\<lparr>values_get := Inr (Some (other # rest))\<rparr>) req"
proof -
  let ?w = "world\<lparr>values_get := Inr (Some (first # rest))\<rparr>"
  let ?w' = "world\<lparr>values_get := Inr (Some (other # rest))\<rparr>"
  have i: "isRecent ?w = isRecent ?w'"
    by (simp add: fun_eq_iff isRecent_def newDate_def sevenDaysAgo_def split: option.split)
  have gc: "generateContent ?w = generateContent ?w'" by simp
  have r: "report ?w = report ?w'"
    unfolding report_def recentQuestions_def i gc by simp
  have c: "gatherContext ?w = gatherContext ?w'"
    by (rule gatherContext_same) simp_all
  have u: "userinfo_get ?w = userinfo_get ?w'" by simp
  have va: "values_append ?w = values_append ?w'" by simp
  have dn: "date_now ?w = date_now ?w'" by simp
  have l: "logQuestion ?w question = logQuestion ?w' question" for question
    unfolding logQuestion_def u va dn ..
  have g: "gemini ?w question = gemini ?w' question" for question
    unfolding gemini_def c gc l ..
  have "askTry ?w req = askTry ?w' req"
    unfolding askTry_def r g by simp
  then show ?thesis by (simp add: ask_def recentQuestions_Cons)
qed

theorem header_row_skipped_witness:
  "isRecent sampleWorld [''2023-11-14T22:13:19.000Z'', ''va@example.com'', ''How do I invoice?'']
   \<and> recentQuestions sampleWorld
        [[''2023-11-14T22:13:19.000Z'', ''va@example.com'', ''How do I invoice?''],
         [''2020-09-13T12:26:40.000Z'', ''va@example.com'', ''Where is the handbook?'']] = []
   \<and> ask (sampleWorld\<lparr>values_get := Inr (Some
        [[''2023-11-14T22:13:19.000Z'', ''va@example.com'', ''How do I invoice?''],
         [''2020-09-13T12:26:40.000Z'', ''va@example.com'', ''Where is the handbook?'']])\<rparr>)
        reportRequest
     = ask (sampleWorld\<lparr>values_get := Inr (Some
        [[''Timestamp'', ''Email'', ''Question''],
         [''2020-09-13T12:26:40.000Z'', ''va@example.com'', ''Where is the handbook?'']])\<rparr>)
        reportRequest"
  using header_row_skipped [where world = sampleWorld
      and first = "[''2023-11-14T22:13:19.000Z'', ''va@example.com'', ''How do I invoice?'']"
      and rest = "[[''2020-09-13T12:26:40.000Z'', ''va@example.com'', ''Where is the handbook?'']]"
      and other = "[''Timestamp'', ''Email'', ''Question'']" and req = reportRequest]
  by (simp add: sampleWorld_def isRecent_def newDate_def cell_def sevenDaysAgo_def)

section \<open>Properties of the gemini flow\<close>

lemma nonempty_contents:
  "filter (\<lambda>c. c \<noteq> []) (map snd (contentPromises drive files))
     = List.map_filter (successfulContent drive) files"
  unfolding snd_contentPromises
  by (induction files) (simp_all add: successfulContent_def catchEmpty_def split: sum.split)

lemma joinContents_contentPromises:
  "joinContents (map snd (contentPromises drive files))
     = join delimiter (List.map_filter (successfulContent drive) files)"
  by (simp add: joinContents_def nonempty_contents)

lemma map_filter_append:
  "List.map_filter f (xs @ ys) = List.map_filter f xs @ List.map_filter f ys"
  by (simp add: List.map_filter_def)

lemma map_filter_all_None:
  "(\<forall>x\<in>set xs. f x = None) \<Longrightarrow> List.map_filter f xs = []"
  by (induction xs) simp_all

lemma gatherContext_no_folder:
  "drive_files_list drive folderQuery = Inr None \<or> drive_files_list drive folderQuery = Inr (Some [])
     \<Longrightarrow> gatherContext drive = ([DriveFilesList folderQuery], Inr [])"
  by (auto simp: gatherContext_def)

lemma snd_gatherContext_folder:
  assumes "drive_files_list drive folderQuery = Inr (Some (folder # others))"
  shows "snd (gatherContext drive) =
     (case drive_files_list drive (childrenQuery (file_id folder)) of
        Inl e \<Rightarrow> Inl e
      | Inr None \<Rightarrow> Inr []
      | Inr (Some files) \<Rightarrow> Inr (join delimiter (List.map_filter (successfulContent drive) files)))"
  using assms joinContents_contentPromises [of drive]
  by (simp add: gatherContext_def Let_def split: sum.split option.split list.split)

lemma gemini_asks_model:
  "snd (gatherContext world) = Inr context \<Longrightarrow>
     GenerateContent (enhancedPrompt context question) \<in> set (fst (gemini world question))"
  by (cases "gatherContext world")
     (auto simp: gemini_def Let_def split: sum.split)

lemma snd_askTry_logging:
  "snd (askTry (world\<lparr>userinfo_get := looked_up, values_append := appended\<rparr>) req)
     = snd (askTry world req)"
proof -
  let ?w = "world\<lparr>userinfo_get := looked_up, values_append := appended\<rparr>"
  have c: "gatherContext ?w = gatherContext world"
    by (rule gatherContext_same) simp_all
  have m: "generateContent ?w = generateContent world" by simp
  have g: "snd (gemini ?w question) = snd (gemini world question)" for question
    unfolding snd_gemini c m ..
  have r: "report ?w = report world"
    by (rule report_same) simp_all
  show ?thesis
    by (simp add: askTry_def g r split: sum.split)
qed

text \<open>
  Claim C1. When the folder is found and its children are listed, the context is the
  contents of the successful, non-empty extractions, in listing order, joined by the
  delimiter (two line feeds, three dashes, two line feeds). A file whose extraction is
  rejected or empty adds nothing: the context is the one of the listing without that
  file. The context is empty when the folder is absent, when it has no children and
  when no file of it gives a content. This context is the one inside the prompt the
  model is called with.
\<close>

theorem context_is_joined_contents:
  "(drive_files_list world folderQuery = Inr (Some (folder # others))
      \<and> drive_files_list world (childrenQuery (file_id folder)) = Inr (Some files) \<longrightarrow>
        snd (gatherContext world)
          = Inr (join delimiter (List.map_filter (successfulContent world) files)))
   \<and> (successfulContent world file = None \<longrightarrow>
        joinContents (map snd (contentPromises world (before @ file # after)))
          = joinContents (map snd (contentPromises world (before @ after))))
   \<and> (drive_files_list world folderQuery = Inr None
        \<or> drive_files_list world folderQuery = Inr (Some []) \<longrightarrow>
        snd (gatherContext world) = Inr [])
   \<and> (drive_files_list world folderQuery = Inr (Some (folder # others))
      \<and> (drive_files_list world (childrenQuery (file_id folder)) = Inr None
          \<or> drive_files_list world (childrenQuery (file_id folder)) = Inr (Some [])) \<longrightarrow>
        snd (gatherContext world) = Inr [])
   \<and> (drive_files_list world folderQuery = Inr (Some (folder # others))
      \<and> drive_files_list world (childrenQuery (file_id folder)) = Inr (Some files)
      \<and> (\<forall>file\<in>set files. successfulContent world file = None) \<longrightarrow>
        snd (gatherContext world) = Inr [])
   \<and> (type req = Some ''gemini'' \<and> \<not> falsy (prompt req) \<and> \<not> falsy (accessToken req)
      \<and> snd (gatherContext world) = Inr ctx \<longrightarrow>
        GenerateContent (enhancedPrompt ctx (the (prompt req))) \<in> set (fst (ask world req)))"
proof -
  have listed: "drive_files_list world folderQuery = Inr (Some (folder # others))
      \<and> drive_files_list world (childrenQuery (file_id folder)) = Inr (Some files) \<longrightarrow>
        snd (gatherContext world)
          = Inr (join delimiter (List.map_filter (successfulContent world) files))"
    by (simp add: snd_gatherContext_folder)
  have skipped: "successfulContent world file = None \<longrightarrow>
        joinContents (map snd (contentPromises world (before @ file # after)))
          = joinContents (map snd (contentPromises world (before @ after)))"
    by (simp add: joinContents_contentPromises map_filter_append)
  have no_folder: "drive_files_list world folderQuery = Inr None
        \<or> drive_files_list world folderQuery = Inr (Some []) \<longrightarrow>
        snd (gatherContext world) = Inr []"
    using gatherContext_no_folder [of world] by auto
  have no_children: "drive_files_list world folderQuery = Inr (Some (folder # others))
      \<and> (drive_files_list world (childrenQuery (file_id folder)) = Inr None
          \<or> drive_files_list world (childrenQuery (file_id folder)) = Inr (Some [])) \<longrightarrow>
        snd (gatherContext world) = Inr []"
    by (auto simp: snd_gatherContext_folder)
  have all_fail: "drive_files_list world folderQuery = Inr (Some (folder # others))
      \<and> drive_files_list world (childrenQuery (file_id folder)) = Inr (Some files)
      \<and> (\<forall>file\<in>set files. successfulContent world file = None) \<longrightarrow>
        snd (gatherContext world) = Inr []"
    by (simp add: snd_gatherContext_folder map_filter_all_None)
  have asked: "type req = Some ''gemini'' \<and> \<not> falsy (prompt req) \<and> \<not> falsy (accessToken req)
      \<and> snd (gatherContext world) = Inr ctx \<longrightarrow>
        GenerateContent (enhancedPrompt ctx (the (prompt req))) \<in> set (fst (ask world req))"
  proof (intro impI, elim conjE)
    assume t: "type req = Some ''gemini''" and p: "\<not> falsy (prompt req)"
      and a: "\<not> falsy (accessToken req)" and c: "snd (gatherContext world) = Inr ctx"
    have "fst (ask world req) = fst (askTry world req)
        \<or> (\<exists>line. fst (ask world req) = fst (askTry world req) @ [line])"
      by (cases "askTry world req") (auto simp: ask_def split: sum.split)
    then show "GenerateContent (enhancedPrompt ctx (the (prompt req))) \<in> set (fst (ask world req))"
      using gemini_asks_model [OF c, of "the (prompt req)"] askTry_gemini [OF t p a, of world]
      by auto
  qed
  show ?thesis
    by (rule conjI [OF listed conjI [OF skipped conjI [OF no_folder conjI [OF no_children
          conjI [OF all_fail asked]]]]])
qed

theorem context_is_joined_contents_witness:
  "drive_files_list sampleWorld folderQuery
      = Inr (Some [\<lparr>file_id = ''folder'', file_name = [], file_mimeType = []\<rparr>])
   \<and> drive_files_list sampleWorld (childrenQuery ''folder'') = Inr (Some sampleFiles)
   \<and> successfulContent sampleWorld
        \<lparr>file_id = ''b'', file_name = ''B'', file_mimeType = ''application/pdf''\<rparr> = None
   \<and> snd (gatherContext sampleWorld)
      = Inr (''x'' @ [CHR 0x0A, CHR 0x0A] @ ''---'' @ [CHR 0x0A, CHR 0x0A] @ ''y'')
   \<and> snd (gatherContext (sampleWorld\<lparr>drive_files_list := \<lambda>q. Inr None\<rparr>)) = Inr []
   \<and> type geminiRequest = Some ''gemini'' \<and> \<not> falsy (prompt geminiRequest)
   \<and> \<not> falsy (accessToken geminiRequest)
   \<and> GenerateContent (enhancedPrompt
          (''x'' @ [CHR 0x0A, CHR 0x0A] @ ''---'' @ [CHR 0x0A, CHR 0x0A] @ ''y'')
          ''How do I invoice?'') \<in> set (fst (ask sampleWorld geminiRequest))"
proof -
  have c: "snd (gatherContext sampleWorld)
      = Inr (''x'' @ [CHR 0x0A, CHR 0x0A] @ ''---'' @ [CHR 0x0A, CHR 0x0A] @ ''y'')"
    using context_is_joined_contents [where world = sampleWorld
        and folder = "\<lparr>file_id = ''folder'', file_name = [], file_mimeType = []\<rparr>"
        and others = "[]" and files = sampleFiles]
    by (simp add: sampleWorld_def folderQuery_def childrenQuery_def quote_def sampleFiles_def
        successfulContent_def getDriveFileContent_def readStream_def googleDoc_def
        startsWith_def delimiter_def nl_def)
  have e: "snd (gatherContext (sampleWorld\<lparr>drive_files_list := \<lambda>q. Inr None\<rparr>)) = Inr []"
    using context_is_joined_contents [where world = "sampleWorld\<lparr>drive_files_list := \<lambda>q. Inr None\<rparr>"]
    by simp
  have a: "GenerateContent (enhancedPrompt
          (''x'' @ [CHR 0x0A, CHR 0x0A] @ ''---'' @ [CHR 0x0A, CHR 0x0A] @ ''y'')
          ''How do I invoice?'') \<in> set (fst (ask sampleWorld geminiRequest))"
    using context_is_joined_contents [where world = sampleWorld and req = geminiRequest
        and ctx = "''x'' @ [CHR 0x0A, CHR 0x0A] @ ''---'' @ [CHR 0x0A, CHR 0x0A] @ ''y''"] c
    by (simp add: geminiRequest_def falsy_def)
  show ?thesis using c e a
    by (simp add: geminiRequest_def falsy_def)
       (simp add: sampleWorld_def folderQuery_def childrenQuery_def quote_def
          successfulContent_def getDriveFileContent_def googleDoc_def startsWith_def)
qed

text \<open>
  Claim C6. The response does not depend on what the identity lookup and the append
  to the log sheet answer: whatever they do, fail included, the handler sends the
  response it sends otherwise. For a gemini request whose context was gathered and
  whose model call gave an answer, that response is 200 with the answer as
  \<^verbatim>\<open>response\<close>.
\<close>

theorem logging_leaves_response:
  "snd (ask (world\<lparr>userinfo_get := looked_up, values_append := appended\<rparr>) req)
      = snd (ask world req)
   \<and> (type req = Some ''gemini'' \<and> \<not> falsy (prompt req) \<and> \<not> falsy (accessToken req)
      \<and> snd (gatherContext world) = Inr ctx
      \<and> generateContent world (enhancedPrompt ctx (the (prompt req))) = Inr answer \<longrightarrow>
        snd (ask (world\<lparr>userinfo_get := looked_up, values_append := appended\<rparr>) req)
          = \<lparr>status = 200, body = ResponseBody answer\<rparr>)"
proof -
  have same: "snd (ask (world\<lparr>userinfo_get := looked_up, values_append := appended\<rparr>) req)
      = snd (ask world req)"
    by (simp only: snd_ask snd_askTry_logging)
  have ok: "type req = Some ''gemini'' \<and> \<not> falsy (prompt req) \<and> \<not> falsy (accessToken req)
      \<and> snd (gatherContext world) = Inr ctx
      \<and> generateContent world (enhancedPrompt ctx (the (prompt req))) = Inr answer \<longrightarrow>
        snd (ask world req) = \<lparr>status = 200, body = ResponseBody answer\<rparr>"
    by (simp add: snd_ask askTry_gemini snd_gemini send_def)
  show ?thesis using same ok by simp
qed

theorem logging_leaves_response_witness:
  "type geminiRequest = Some ''gemini'' \<and> \<not> falsy (prompt geminiRequest)
   \<and> \<not> falsy (accessToken geminiRequest)
   \<and> snd (ask (sampleWorld\<lparr>userinfo_get := failed, values_append := \<lambda>entry. failed\<rparr>)
          geminiRequest) = \<lparr>status = 200, body = ResponseBody ''answer''\<rparr>
   \<and> snd (ask sampleWorld geminiRequest) = \<lparr>status = 200, body = ResponseBody ''answer''\<rparr>"
proof -
  obtain ctx where c: "snd (gatherContext sampleWorld) = Inr ctx"
    by (cases "snd (gatherContext sampleWorld)")
       (simp_all add: snd_gatherContext_Inl sampleWorld_def folderQuery_def childrenQuery_def
          quote_def)
  have g: "generateContent sampleWorld (enhancedPrompt ctx (the (prompt geminiRequest)))
      = Inr ''answer''"
    by (simp add: sampleWorld_def)
  have t: "type geminiRequest = Some ''gemini'' \<and> \<not> falsy (prompt geminiRequest)
      \<and> \<not> falsy (accessToken geminiRequest)"
    by (simp add: geminiRequest_def falsy_def)
  note l = logging_leaves_response [where world = sampleWorld and req = geminiRequest
        and looked_up = failed and appended = "\<lambda>entry. failed"
        and ctx = ctx and answer = "''answer''"]
  from l t c g have
    "snd (ask (sampleWorld\<lparr>userinfo_get := failed, values_append := \<lambda>entry. failed\<rparr>)
          geminiRequest) = \<lparr>status = 200, body = ResponseBody ''answer''\<rparr>"
    by blast
  moreover from l this have
    "snd (ask sampleWorld geminiRequest) = \<lparr>status = 200, body = ResponseBody ''answer''\<rparr>"
    by simp
  ultimately show ?thesis using t by blast
qed

section \<open>Failures\<close>

text \<open>
  Claim C8. Every error thrown inside the \<^verbatim>\<open>try\<close> block is answered with status
  500 and the fixed body, which holds nothing of the error; status 500 is sent in no
  other case. The errors thrown are exactly the failures of the folder lookup, the
  listing of the children and the model call in the gemini flow, of the sheet read and
  the model call in the report flow, and of the code exchange in the token flow, each
  for a request that passed the check of its fields. Failures of a file extraction or
  of the logging are not among them.
\<close>

theorem failures_answered_500:
  "(\<forall>err. snd (askTry world req) = Inl err \<longrightarrow>
        snd (ask world req)
          = \<lparr>status = 500, body = ErrorBody ''Something went wrong on the backend.''\<rparr>)
   \<and> (status (snd (ask world req)) = 500 \<longrightarrow> (\<exists>err. snd (askTry world req) = Inl err))
   \<and> (type req = Some ''gemini'' \<and> \<not> falsy (prompt req) \<and> \<not> falsy (accessToken req) \<longrightarrow>
        (snd (askTry world req) = Inl e \<longleftrightarrow>
           drive_files_list world folderQuery = Inl e
           \<or> (\<exists>folder others.
                 drive_files_list world folderQuery = Inr (Some (folder # others))
                 \<and> drive_files_list world (childrenQuery (file_id folder)) = Inl e)
           \<or> (\<exists>ctx. snd (gatherContext world) = Inr ctx
                 \<and> generateContent world (enhancedPrompt ctx (the (prompt req))) = Inl e)))
   \<and> (type req = Some ''report'' \<and> \<not> falsy (accessToken req) \<longrightarrow>
        (snd (askTry world req) = Inl e \<longleftrightarrow>
           values_get world = Inl e
           \<or> (\<exists>rows. values_get world = Inr (Some rows) \<and> recentQuestions world rows \<noteq> []
                 \<and> generateContent world
                      (reportPrompt (join nl (recentQuestions world rows))) = Inl e)))
   \<and> (type req = Some ''token'' \<and> \<not> falsy (code req) \<longrightarrow>
        (snd (askTry world req) = Inl e \<longleftrightarrow> getToken world (the (code req)) = Inl e))"
proof -
  have caught: "\<forall>err. snd (askTry world req) = Inl err \<longrightarrow>
        snd (ask world req)
          = \<lparr>status = 500, body = ErrorBody ''Something went wrong on the backend.''\<rparr>"
    by (simp add: snd_ask backendError_def send_def)
  have only: "status (snd (ask world req)) = 500 \<longrightarrow> (\<exists>err. snd (askTry world req) = Inl err)"
  proof (cases "snd (askTry world req)")
    case (Inl err)
    then show ?thesis by simp
  next
    case (Inr res)
    then show ?thesis using snd_askTry_status [OF Inr] by (auto simp: snd_ask)
  qed
  have g: "type req = Some ''gemini'' \<and> \<not> falsy (prompt req) \<and> \<not> falsy (accessToken req) \<longrightarrow>
        (snd (askTry world req) = Inl e \<longleftrightarrow>
           drive_files_list world folderQuery = Inl e
           \<or> (\<exists>folder others.
                 drive_files_list world folderQuery = Inr (Some (folder # others))
                 \<and> drive_files_list world (childrenQuery (file_id folder)) = Inl e)
           \<or> (\<exists>ctx. snd (gatherContext world) = Inr ctx
                 \<and> generateContent world (enhancedPrompt ctx (the (prompt req))) = Inl e))"
    by (simp add: askTry_gemini snd_gemini_Inl snd_gatherContext_Inl)
  have r: "type req = Some ''report'' \<and> \<not> falsy (accessToken req) \<longrightarrow>
        (snd (askTry world req) = Inl e \<longleftrightarrow>
           values_get world = Inl e
           \<or> (\<exists>rows. values_get world = Inr (Some rows) \<and> recentQuestions world rows \<noteq> []
                 \<and> generateContent world
                      (reportPrompt (join nl (recentQuestions world rows))) = Inl e))"
    by (simp add: askTry_report snd_report_Inl)
  have t: "type req = Some ''token'' \<and> \<not> falsy (code req) \<longrightarrow>
        (snd (askTry world req) = Inl e \<longleftrightarrow> getToken world (the (code req)) = Inl e)"
    by (auto simp: askTry_token split: sum.splits)
  show ?thesis
    by (rule conjI [OF caught conjI [OF only conjI [OF g conjI [OF r t]]]])
qed

theorem failures_answered_500_witness:
  "type geminiRequest = Some ''gemini'' \<and> \<not> falsy (prompt geminiRequest)
   \<and> \<not> falsy (accessToken geminiRequest)
   \<and> drive_files_list (sampleWorld\<lparr>drive_files_list := \<lambda>q. failed\<rparr>) folderQuery
       = Inl (JsError ''ECONNRESET'')
   \<and> snd (ask (sampleWorld\<lparr>drive_files_list := \<lambda>q. failed\<rparr>) geminiRequest)
       = \<lparr>status = 500, body = ErrorBody ''Something went wrong on the backend.''\<rparr>
   \<and> type reportRequest = Some ''report'' \<and> \<not> falsy (accessToken reportRequest)
   \<and> values_get (sampleWorld\<lparr>values_get := failed\<rparr>) = Inl (JsError ''ECONNRESET'')
   \<and> snd (ask (sampleWorld\<lparr>values_get := failed\<rparr>) reportRequest)
       = \<lparr>status = 500, body = ErrorBody ''Something went wrong on the backend.''\<rparr>
   \<and> type tokenRequest = Some ''token'' \<and> \<not> falsy (code tokenRequest)
   \<and> getToken (sampleWorld\<lparr>getToken := \<lambda>c. failed\<rparr>) (the (code tokenRequest))
       = Inl (JsError ''ECONNRESET'')
   \<and> snd (ask (sampleWorld\<lparr>getToken := \<lambda>c. failed\<rparr>) tokenRequest)
       = \<lparr>status = 500, body = ErrorBody ''Something went wrong on the backend.''\<rparr>"
proof -
  have tg: "type geminiRequest = Some ''gemini'' \<and> \<not> falsy (prompt geminiRequest)
      \<and> \<not> falsy (accessToken geminiRequest)"
    by (simp add: geminiRequest_def falsy_def)
  have tr: "type reportRequest = Some ''report'' \<and> \<not> falsy (accessToken reportRequest)"
    by (simp add: reportRequest_def falsy_def)
  have tt: "type tokenRequest = Some ''token'' \<and> \<not> falsy (code tokenRequest)"
    by (simp add: tokenRequest_def falsy_def)
  have fg: "drive_files_list (sampleWorld\<lparr>drive_files_list := \<lambda>q. failed\<rparr>) folderQuery
       = Inl (JsError ''ECONNRESET'')"
    by (simp add: failed_def)
  have fr: "values_get (sampleWorld\<lparr>values_get := failed\<rparr>) = Inl (JsError ''ECONNRESET'')"
    by (simp add: failed_def)
  have ft: "getToken (sampleWorld\<lparr>getToken := \<lambda>c. failed\<rparr>) (the (code tokenRequest))
       = Inl (JsError ''ECONNRESET'')"
    by (simp add: failed_def)
  have g: "snd (ask (sampleWorld\<lparr>drive_files_list := \<lambda>q. failed\<rparr>) geminiRequest)
       = \<lparr>status = 500, body = ErrorBody ''Something went wrong on the backend.''\<rparr>"
    using failures_answered_500 [where world = "sampleWorld\<lparr>drive_files_list := \<lambda>q. failed\<rparr>"
        and req = geminiRequest and e = "JsError ''ECONNRESET''"] tg fg
    by blast
  have r: "snd (ask (sampleWorld\<lparr>values_get := failed\<rparr>) reportRequest)
       = \<lparr>status = 500, body = ErrorBody ''Something went wrong on the backend.''\<rparr>"
    using failures_answered_500 [where world = "sampleWorld\<lparr>values_get := failed\<rparr>"
        and req = reportRequest and e = "JsError ''ECONNRESET''"] tr fr
    by blast
  have t: "snd (ask (sampleWorld\<lparr>getToken := \<lambda>c. failed\<rparr>) tokenRequest)
       = \<lparr>status = 500, body = ErrorBody ''Something went wrong on the backend.''\<rparr>"
    using failures_answered_500 [where world = "sampleWorld\<lparr>getToken := \<lambda>c. failed\<rparr>"
        and req = tokenRequest and e = "JsError ''ECONNRESET''"] tt ft
    by blast
  from tg fg g tr fr r tt ft t show ?thesis by blast
qed

end
